theory Spec2Isabelle
  imports Complex_Main "HOL-Library.Word"
begin

section \<open>Strings and rendered elements\<close>

text \<open>
  A JavaScript string is a sequence of UTF-16 code units and \<open>length\<close> counts these
  units. The text a card displays contains symbols outside ASCII, so displayed text is a
  list of 16-bit words. Style class names are ASCII throughout the sources and are kept
  as plain strings.
\<close>

type_synonym jsstring = "16 word list"

definition utf16 :: "string \<Rightarrow> jsstring" where
  "utf16 s = map of_char s"

text \<open>
  A JSX attribute value: a boolean (an attribute written without a value is \<open>true\<close>), a
  numeric literal (kept as the exact rational its decimal digits denote; no arithmetic
  is done on it), a string, or an object literal with its keys in source order.
\<close>

datatype PropVal =
  PBool bool
| PNum rat
| PStr string
| PObj "(string \<times> PropVal) list"

text \<open>
  A rendered element: a text node, or an element with its type (a host tag such as
  \<open>div\<close>, or the name of a component imported from outside the sources such as
  \<open>motion.div\<close> and \<open>Button\<close>), its attributes in source order and its children.
  The components defined in the sources (\<open>Card\<close>, \<open>Corner\<close>, \<open>DraggableCard\<close>)
  are functions that are called where JSX instantiates them.
\<close>

datatype node =
  Text jsstring
| Elem string "(string \<times> PropVal) list" "node list"

fun tag_of :: "node \<Rightarrow> string option" where
  "tag_of (Text _) = None"
| "tag_of (Elem t _ _) = Some t"

fun props_of :: "node \<Rightarrow> (string \<times> PropVal) list" where
  "props_of (Text _) = []"
| "props_of (Elem _ ps _) = ps"

fun children_of :: "node \<Rightarrow> node list" where
  "children_of (Text _) = []"
| "children_of (Elem _ _ cs) = cs"

definition class_of :: "node \<Rightarrow> PropVal option" where
  "class_of n = map_of (props_of n) ''className''"

text \<open>A thrown JavaScript \<open>Error\<close> with its message.\<close>

datatype error = Error string

section \<open>The class-name utility\<close>

text \<open>
  \<open>cn\<close> is imported from \<open>@/lib/utils\<close>, which is not among the sources. Every
  component that calls it takes it as a parameter \<open>cn\<close>, applied to the list of its
  arguments (\<open>None\<close> for an argument that is \<open>undefined\<close>); the theorems hold for
  every such function.
\<close>

type_synonym class_util = "string option list \<Rightarrow> string"

fun unwords :: "string list \<Rightarrow> string" where
  "unwords [] = []"
| "unwords [x] = x"
| "unwords (x # y # ys) = x @ '' '' @ unwords (y # ys)"

text \<open>
  Modelled from the spec: the body of \<open>cn\<close> is missing; the spec calls it ``a utility
  for conditionally composing style class names''. This instance drops the arguments
  that are absent or empty and joins the others with single spaces. It is used only to
  evaluate the components at concrete inputs.
\<close>

definition cn_join :: class_util where
  "cn_join args = unwords (filter (\<lambda>s. s \<noteq> []) (List.map_filter id args))"

section \<open>Card\<close>

datatype Color = pink | orange | lime | violet

text \<open>The members of the union type \<open>Value\<close>, in the order of the source.\<close>

datatype Value =
  d0 | d1 | d2 | d3 | d4 | d5 | d6 | d7 | d8 | d9
| plus2 | plus4 | skip | reverse | wild

text \<open>The string each member of \<open>Value\<close> is at run time.\<close>

fun literal :: "Value \<Rightarrow> jsstring" where
  "literal d0 = utf16 ''0''"
| "literal d1 = utf16 ''1''"
| "literal d2 = utf16 ''2''"
| "literal d3 = utf16 ''3''"
| "literal d4 = utf16 ''4''"
| "literal d5 = utf16 ''5''"
| "literal d6 = utf16 ''6''"
| "literal d7 = utf16 ''7''"
| "literal d8 = utf16 ''8''"
| "literal d9 = utf16 ''9''"
| "literal plus2 = utf16 ''+2''"
| "literal plus4 = utf16 ''+4''"
| "literal skip = utf16 ''skip''"
| "literal reverse = utf16 ''reverse''"
| "literal wild = utf16 ''wild''"

record CardProps =
  color :: "Color option"
  "value" :: Value
  className :: "string option"

fun colorMap :: "Color \<Rightarrow> string" where
  "colorMap pink = ''from-pink-400 to-pink-600''"
| "colorMap orange = ''from-orange-300 to-orange-500''"
| "colorMap lime = ''from-lime-300  to-lime-500''"
| "colorMap violet = ''from-violet-400 to-violet-600''"

text \<open>
  The three symbols \<open>iconify\<close> returns, as UTF-16: U+26D4 (no entry) is one code unit,
  U+1F504 (anticlockwise arrows) and U+1F3A8 (palette) are surrogate pairs.
\<close>

definition no_entry_sign :: jsstring where
  "no_entry_sign = [0x26D4]"

definition arrows_sign :: jsstring where
  "arrows_sign = [0xD83D, 0xDD04]"

definition palette_sign :: jsstring where
  "palette_sign = [0xD83C, 0xDFA8]"

fun iconify :: "Value \<Rightarrow> jsstring" where
  "iconify skip = no_entry_sign"
| "iconify reverse = arrows_sign"
| "iconify wild = palette_sign"
| "iconify v = literal v"

definition Corner :: "class_util \<Rightarrow> Value \<Rightarrow> string \<Rightarrow> node" where
  "Corner cn v cls =
     Elem ''span''
       [(''className'',
         PStr (cn [Some ''absolute text-white text-xs font-bold select-none'', Some cls]))]
       [Text (iconify v)]"

text \<open>
  \<open>colorMap[color!]\<close> inside a template literal: the \<open>!\<close> is erased at run time, an
  \<open>undefined\<close> key finds no entry of the table, and \<open>undefined\<close> is printed as the
  word.
\<close>

definition table_entry :: "(Color \<Rightarrow> string) \<Rightarrow> Color option \<Rightarrow> string" where
  "table_entry tbl c = (case c of Some k \<Rightarrow> tbl k | None \<Rightarrow> ''undefined'')"

text \<open>
  The body of \<open>Card\<close>, with the module constant \<open>colorMap\<close> passed as \<open>tbl\<close> so that
  the dependence of a render on the table can be stated. \<open>!color\<close> holds exactly when
  the color is absent, all four color names being non-empty strings.
\<close>

definition Card_body :: "(Color \<Rightarrow> string) \<Rightarrow> class_util \<Rightarrow> CardProps \<Rightarrow> error + node" where
  "Card_body tbl cn p =
     (let neutral = (value p = plus4 \<or> value p = wild) in
      if \<not> neutral \<and> color p = None
      then Inl (Error ''Color is required for this card value.'')
      else
        let bg = (if neutral then ''bg-[#1e3a8a]''
                  else ''bg-gradient-to-br '' @ table_entry tbl (color p))
        in Inr (Elem ''div''
          [(''className'', PStr (cn
              [Some ''relative w-32 overflow-hidden h-52 rounded-[18px] border-[2px] border-black/30'',
               Some bg,
               Some ''shadow-[inset_0_0_0_4px_rgba(255,255,255,0.9)]'',
               Some ''shadow-lg'',
               className p]))]
          [Elem ''span''
             [(''className'', PStr (cn
                 [Some ''absolute inset-0 block origin-top-left rotate-12'',
                  Some (if neutral
                        then ''bg-gradient-to-br from-white/10 via-white/5 to-transparent''
                        else ''bg-white/20''),
                  Some ''mix-blend-overlay pointer-events-none'']))]
             [],
           Elem ''span''
             [(''className'', PStr
                 ''absolute inset-x-0 top-0 h-1/3 rounded-t-[14px] bg-white/15 blur-[6px] pointer-events-none'')]
             [],
           Corner cn (value p) ''top-2 left-2'',
           Corner cn (value p) ''bottom-2 right-2 rotate-180'',
           Elem ''span''
             [(''className'', PStr (cn
                 [Some ''absolute inset-0 flex items-center justify-center text-white font-extrabold drop-shadow-md'',
                  Some (if length (literal (value p)) > 2 then ''text-3xl'' else ''text-6xl'')]))]
             [Text (iconify (value p))]]))"

definition Card :: "class_util \<Rightarrow> CardProps \<Rightarrow> error + node" where
  "Card cn p = Card_body colorMap cn p"

section \<open>DraggableCard\<close>

definition DraggableCard :: "node list \<Rightarrow> node" where
  "DraggableCard children =
     Elem ''motion.div''
       [(''drag'', PBool True),
        (''dragSnapToOrigin'', PBool True),
        (''dragElastic'', PNum 0.2),
        (''whileDrag'', PObj [(''scale'', PNum 1.1), (''rotate'', PNum 5)]),
        (''transition'',
           PObj [(''type'', PStr ''spring''), (''stiffness'', PNum 300), (''damping'', PNum 20)]),
        (''className'', PStr ''cursor-grab active:cursor-grabbing'')]
       children"

section \<open>The page\<close>

text \<open>
  \<open>Home\<close> instantiates two cards; a card that throws aborts the render of the page.
  Between the button and the heading the JSX holds the text \<open>;\<close>.
\<close>

definition Home :: "class_util \<Rightarrow> error + node" where
  "Home cn =
     (case Card cn \<lparr>color = Some orange, value = d1, className = None\<rparr> of
        Inl e \<Rightarrow> Inl e
      | Inr c1 \<Rightarrow>
         (case Card cn \<lparr>color = None, value = wild, className = None\<rparr> of
            Inl e \<Rightarrow> Inl e
          | Inr c2 \<Rightarrow>
             Inr (Elem ''div'' [(''className'', PStr ''w-screen'')]
               [Elem ''Button'' [] [Text (utf16 ''Button'')],
                Text (utf16 '';''),
                Elem ''h1'' [(''className'', PStr ''bg-primary'')] [Text (utf16 ''ghdfkjgfhd'')],
                DraggableCard [c1],
                DraggableCard [c2]])))"

section \<open>Observers of a rendered tree\<close>

text \<open>
  The root of a rendered card has five children, in this order: the overlay, the
  highlight band, the two corner labels and the central glyph. \<open>count_tag\<close> counts
  the elements of a given type in a whole tree.
\<close>

fun central_glyph :: "node \<Rightarrow> node option" where
  "central_glyph (Elem _ _ [_, _, _, _, c]) = Some c"
| "central_glyph _ = None"

fun corner_labels :: "node \<Rightarrow> (node \<times> node) option" where
  "corner_labels (Elem _ _ [_, _, a, b, _]) = Some (a, b)"
| "corner_labels _ = None"

fun count_tag :: "string \<Rightarrow> node \<Rightarrow> nat" where
  "count_tag t (Text _) = 0"
| "count_tag t (Elem u _ cs) = (if u = t then 1 else 0) + sum_list (map (count_tag t) cs)"

section \<open>Properties of Card\<close>

lemma literal_long: "(length (literal v) > 2) = (v \<in> {skip, reverse, wild})"
  by (cases v) (simp_all add: utf16_def)

text \<open>
  C1. \<open>Card\<close> throws in one case only and with one error: a value other than \<open>+4\<close>
  and \<open>wild\<close> rendered without a color throws the error with the message ``Color is
  required for this card value.''; the same value with any of the four colors renders;
  and whenever a render throws, the value is outside the neutral set, the color is absent
  and the error is that one.
\<close>

theorem Card_error_iff:
  "(v \<notin> {plus4, wild} \<longrightarrow>
      Card cn \<lparr>color = None, value = v, className = k\<rparr>
        = Inl (Error ''Color is required for this card value.''))
   \<and> (v \<notin> {plus4, wild} \<longrightarrow>
      (\<exists>n. Card cn \<lparr>color = Some c, value = v, className = k\<rparr> = Inr n))
   \<and> (Card cn p = Inl e \<longrightarrow>
      value p \<notin> {plus4, wild} \<and> color p = None
      \<and> e = Error ''Color is required for this card value.'')"
  by (auto simp add: Card_def Card_body_def Let_def split: if_splits)

theorem Card_error_iff_witness:
  "skip \<notin> {plus4, wild}
   \<and> Card cn_join \<lparr>color = None, value = skip, className = None\<rparr>
        = Inl (Error ''Color is required for this card value.'')
   \<and> (\<exists>n. Card cn_join \<lparr>color = Some lime, value = skip, className = None\<rparr> = Inr n)"
  using Card_error_iff [of skip cn_join None lime] by simp

text \<open>
  C2, as stated, fails at \<open>wild\<close>. The text displayed for \<open>wild\<close> is the palette
  symbol, two UTF-16 code units long and so not longer than 2, yet the central glyph of
  the rendered card carries \<open>text-3xl\<close>, the smaller of the two size classes
  (\<open>text-3xl\<close> is 1.875rem and \<open>text-6xl\<close> is 3.75rem in the styling system).
\<close>

theorem wild_sized_small:
  "length (iconify wild) = 2
   \<and> (case Card cn_join \<lparr>color = None, value = wild, className = None\<rparr> of
        Inl e \<Rightarrow> None | Inr n \<Rightarrow> central_glyph n)
     = Some (Elem ''span''
         [(''className'', PStr ''absolute inset-0 flex items-center justify-center text-white font-extrabold drop-shadow-md text-3xl'')]
         [Text [0xD83C, 0xDFA8]])"
  by (simp add: Card_def Card_body_def cn_join_def utf16_def palette_sign_def)

text \<open>
  C2, amended. The size class of the central glyph is chosen by the length of the value
  itself (\<open>value.length > 2\<close>), not of the text displayed for it: \<open>skip\<close>,
  \<open>reverse\<close> and \<open>wild\<close>, the values longer than 2 characters, render at the
  smaller class \<open>text-3xl\<close>, and the digits, \<open>+2\<close> and \<open>+4\<close> at the larger class
  \<open>text-6xl\<close>. The glyph shown is \<open>iconify value\<close> in both cases.
\<close>

theorem central_size_by_literal:
  assumes "value p \<in> {plus4, wild} \<or> color p \<noteq> None"
  shows "\<exists>n. Card cn p = Inr n
     \<and> central_glyph n = Some (Elem ''span''
         [(''className'', PStr (cn
            [Some ''absolute inset-0 flex items-center justify-center text-white font-extrabold drop-shadow-md'',
             Some (if value p \<in> {skip, reverse, wild} then ''text-3xl'' else ''text-6xl'')]))]
         [Text (iconify (value p))])
     \<and> (value p \<in> {skip, reverse, wild}) = (length (literal (value p)) > 2)"
  using assms literal_long [of "value p"]
  by (auto simp add: Card_def Card_body_def Let_def Corner_def)

theorem central_size_by_literal_witness:
  "(value \<lparr>color = None, value = plus4, className = None\<rparr> \<in> {plus4, wild}
      \<or> color \<lparr>color = None, value = plus4, className = None\<rparr> \<noteq> None)
   \<and> (\<exists>n. Card cn_join \<lparr>color = None, value = plus4, className = None\<rparr> = Inr n
      \<and> central_glyph n = Some (Elem ''span''
         [(''className'', PStr ''absolute inset-0 flex items-center justify-center text-white font-extrabold drop-shadow-md text-6xl'')]
         [Text (utf16 ''+4'')]))"
  using central_size_by_literal [of "\<lparr>color = None, value = plus4, className = None\<rparr>" cn_join]
  by (auto simp add: cn_join_def)

text \<open>
  C3. For a value in the neutral set \<open>{+4, wild}\<close> and any two color arguments, each
  possibly absent, both renders succeed and give the same tree, whose root carries the
  fixed background \<open>bg-[#1e3a8a]\<close>.
\<close>

theorem neutral_ignores_color:
  assumes "v \<in> {plus4, wild}"
  shows "\<exists>n. Card cn \<lparr>color = c1, value = v, className = k\<rparr> = Inr n
     \<and> Card cn \<lparr>color = c2, value = v, className = k\<rparr> = Inr n
     \<and> class_of n = Some (PStr (cn
          [Some ''relative w-32 overflow-hidden h-52 rounded-[18px] border-[2px] border-black/30'',
           Some ''bg-[#1e3a8a]'',
           Some ''shadow-[inset_0_0_0_4px_rgba(255,255,255,0.9)]'',
           Some ''shadow-lg'',
           k]))"
  using assms by (auto simp add: Card_def Card_body_def class_of_def)

theorem neutral_ignores_color_witness:
  "wild \<in> {plus4, wild}
   \<and> (\<exists>n. Card cn_join \<lparr>color = None, value = wild, className = None\<rparr> = Inr n
      \<and> Card cn_join \<lparr>color = Some pink, value = wild, className = None\<rparr> = Inr n
      \<and> class_of n = Some (PStr
          ''relative w-32 overflow-hidden h-52 rounded-[18px] border-[2px] border-black/30 bg-[#1e3a8a] shadow-[inset_0_0_0_4px_rgba(255,255,255,0.9)] shadow-lg''))"
  using neutral_ignores_color [of wild cn_join None None "Some pink"]
  by (simp add: cn_join_def)

text \<open>
  C5. A value outside the neutral set rendered with a color \<open>c\<close> succeeds, and the
  background class of its root is \<open>bg-gradient-to-br\<close> followed by the entry of
  \<open>colorMap\<close> for \<open>c\<close>. The table gives each of the four colors its own descriptor
  with a \<open>from-\<close> and a \<open>to-\<close> stop. A neutral render does not depend on the table:
  it is the same whatever table is put in the place of \<open>colorMap\<close>.
\<close>

theorem colored_uses_gradient:
  "(v \<notin> {plus4, wild} \<longrightarrow>
      (\<exists>n. Card cn \<lparr>color = Some c, value = v, className = k\<rparr> = Inr n
        \<and> class_of n = Some (PStr (cn
            [Some ''relative w-32 overflow-hidden h-52 rounded-[18px] border-[2px] border-black/30'',
             Some (''bg-gradient-to-br '' @ colorMap c),
             Some ''shadow-[inset_0_0_0_4px_rgba(255,255,255,0.9)]'',
             Some ''shadow-lg'',
             k]))))
   \<and> colorMap pink = ''from-pink-400 to-pink-600''
   \<and> colorMap orange = ''from-orange-300 to-orange-500''
   \<and> colorMap lime = ''from-lime-300  to-lime-500''
   \<and> colorMap violet = ''from-violet-400 to-violet-600''
   \<and> inj colorMap
   \<and> (value p \<in> {plus4, wild} \<longrightarrow> Card_body tbl cn p = Card cn p)"
proof -
  have "c = d" if "colorMap c = colorMap d" for c d
    using that by (cases c; cases d) simp_all
  then have "inj colorMap"
    by (simp add: inj_def)
  then show ?thesis
    by (auto simp add: Card_def Card_body_def class_of_def table_entry_def)
qed

theorem colored_uses_gradient_witness:
  "d1 \<notin> {plus4, wild}
   \<and> (\<exists>n. Card cn_join \<lparr>color = Some orange, value = d1, className = None\<rparr> = Inr n
      \<and> class_of n = Some (PStr
          ''relative w-32 overflow-hidden h-52 rounded-[18px] border-[2px] border-black/30 bg-gradient-to-br from-orange-300 to-orange-500 shadow-[inset_0_0_0_4px_rgba(255,255,255,0.9)] shadow-lg''))
   \<and> value \<lparr>color = Some lime, value = wild, className = None\<rparr> \<in> {plus4, wild}
   \<and> Card_body (\<lambda>_. ''none'') cn_join \<lparr>color = Some lime, value = wild, className = None\<rparr>
       = Card cn_join \<lparr>color = Some lime, value = wild, className = None\<rparr>"
  using colored_uses_gradient [of d1 cn_join orange None "\<lparr>color = Some lime, value = wild, className = None\<rparr>" "\<lambda>_. ''none''"]
  by (simp add: cn_join_def)

text \<open>
  C6. In every successful render the two corner labels show \<open>iconify value\<close>, the
  same text as the central glyph. The first carries the position classes
  \<open>top-2 left-2\<close>, the second \<open>bottom-2 right-2 rotate-180\<close>: top left and bottom
  right, the second rotated by 180 degrees and the first not rotated.
\<close>

theorem corners_match_centre:
  assumes "value p \<in> {plus4, wild} \<or> color p \<noteq> None"
  shows "\<exists>n ce. Card cn p = Inr n
     \<and> corner_labels n = Some
         (Elem ''span''
            [(''className'', PStr (cn
               [Some ''absolute text-white text-xs font-bold select-none'', Some ''top-2 left-2'']))]
            [Text (iconify (value p))],
          Elem ''span''
            [(''className'', PStr (cn
               [Some ''absolute text-white text-xs font-bold select-none'',
                Some ''bottom-2 right-2 rotate-180'']))]
            [Text (iconify (value p))])
     \<and> central_glyph n = Some ce
     \<and> children_of ce = [Text (iconify (value p))]"
  using assms by (auto simp add: Card_def Card_body_def Let_def Corner_def)

theorem corners_match_centre_witness:
  "(value \<lparr>color = Some violet, value = reverse, className = None\<rparr> \<in> {plus4, wild}
      \<or> color \<lparr>color = Some violet, value = reverse, className = None\<rparr> \<noteq> None)
   \<and> (\<exists>n ce. Card cn_join \<lparr>color = Some violet, value = reverse, className = None\<rparr> = Inr n
     \<and> corner_labels n = Some
         (Elem ''span''
            [(''className'', PStr ''absolute text-white text-xs font-bold select-none top-2 left-2'')]
            [Text [0xD83D, 0xDD04]],
          Elem ''span''
            [(''className'', PStr ''absolute text-white text-xs font-bold select-none bottom-2 right-2 rotate-180'')]
            [Text [0xD83D, 0xDD04]])
     \<and> central_glyph n = Some ce
     \<and> children_of ce = [Text [0xD83D, 0xDD04]])"
  using corners_match_centre [of "\<lparr>color = Some violet, value = reverse, className = None\<rparr>" cn_join]
  by (simp add: cn_join_def arrows_sign_def)

text \<open>
  C10. Whether \<open>Card\<close> throws does not depend on \<open>className\<close>: for a given value
  and color either every \<open>className\<close> makes it throw, or every \<open>className\<close> gives a
  render whose root class is \<open>cn\<close> applied to the four base classes, which do not
  depend on \<open>className\<close>, followed by \<open>className\<close> as the last argument.
\<close>

theorem className_last_and_irrelevant_to_failure:
  "(\<forall>k. Card cn \<lparr>color = c, value = v, className = k\<rparr>
          = Inl (Error ''Color is required for this card value.''))
   \<or> (\<forall>k. \<exists>n. Card cn \<lparr>color = c, value = v, className = k\<rparr> = Inr n
        \<and> class_of n = Some (PStr (cn
            [Some ''relative w-32 overflow-hidden h-52 rounded-[18px] border-[2px] border-black/30'',
             Some (if v \<in> {plus4, wild} then ''bg-[#1e3a8a]''
                   else ''bg-gradient-to-br '' @ table_entry colorMap c),
             Some ''shadow-[inset_0_0_0_4px_rgba(255,255,255,0.9)]'',
             Some ''shadow-lg'',
             k])))"
  by (auto simp add: Card_def Card_body_def class_of_def)

theorem className_last_and_irrelevant_to_failure_witness:
  "\<forall>k. \<exists>n. Card cn_join \<lparr>color = Some pink, value = d7, className = k\<rparr> = Inr n
        \<and> class_of n = Some (PStr (cn_join
            [Some ''relative w-32 overflow-hidden h-52 rounded-[18px] border-[2px] border-black/30'',
             Some ''bg-gradient-to-br from-pink-400 to-pink-600'',
             Some ''shadow-[inset_0_0_0_4px_rgba(255,255,255,0.9)]'',
             Some ''shadow-lg'',
             k]))"
proof -
  have "Card cn_join \<lparr>color = Some pink, value = d7, className = None\<rparr>
          \<noteq> Inl (Error ''Color is required for this card value.'')"
    by (simp add: Card_def Card_body_def)
  with className_last_and_irrelevant_to_failure [of cn_join "Some pink" d7]
  show ?thesis
    by (auto simp add: table_entry_def)
qed

section \<open>Properties of DraggableCard\<close>

text \<open>
  C7. Whatever the children, \<open>DraggableCard\<close> gives \<open>motion.div\<close> these gesture
  attributes: \<open>drag\<close> true (both axes, no axis named), \<open>dragSnapToOrigin\<close> true,
  \<open>dragElastic\<close> 0.2, \<open>whileDrag\<close> with scale 1.1 and rotate 5, and a \<open>transition\<close>
  of type spring with stiffness 300 and damping 20. Besides these five the element has
  only its \<open>className\<close>.
\<close>

theorem DraggableCard_gesture_config:
  "tag_of (DraggableCard children) = Some ''motion.div''
   \<and> map_of (props_of (DraggableCard children)) ''drag'' = Some (PBool True)
   \<and> map_of (props_of (DraggableCard children)) ''dragSnapToOrigin'' = Some (PBool True)
   \<and> map_of (props_of (DraggableCard children)) ''dragElastic'' = Some (PNum (2 / 10))
   \<and> map_of (props_of (DraggableCard children)) ''whileDrag''
       = Some (PObj [(''scale'', PNum (11 / 10)), (''rotate'', PNum 5)])
   \<and> map_of (props_of (DraggableCard children)) ''transition''
       = Some (PObj [(''type'', PStr ''spring''), (''stiffness'', PNum 300), (''damping'', PNum 20)])
   \<and> map fst (props_of (DraggableCard children))
       = [''drag'', ''dragSnapToOrigin'', ''dragElastic'', ''whileDrag'', ''transition'', ''className'']"
  by (simp add: DraggableCard_def)

theorem DraggableCard_gesture_config_witness:
  "map_of (props_of (DraggableCard [Text (utf16 ''x'')])) ''dragElastic'' = Some (PNum (1 / 5))
   \<and> map_of (props_of (DraggableCard [Text (utf16 ''x'')])) ''drag'' = Some (PBool True)"
  using DraggableCard_gesture_config [of "[Text (utf16 ''x'')]"] by simp

text \<open>
  C9. The children given to \<open>DraggableCard\<close> are the children of the \<open>motion.div\<close>
  it returns, unchanged and in the same order, and the attributes of that element do
  not depend on the children.
\<close>

theorem DraggableCard_children_unchanged:
  "children_of (DraggableCard children) = children
   \<and> tag_of (DraggableCard children) = Some ''motion.div''
   \<and> props_of (DraggableCard children) = props_of (DraggableCard [])"
  by (simp add: DraggableCard_def)

theorem DraggableCard_children_unchanged_witness:
  "children_of (DraggableCard [Text (utf16 ''a''), Elem ''div'' [] []])
     = [Text (utf16 ''a''), Elem ''div'' [] []]"
  using DraggableCard_children_unchanged [of "[Text (utf16 ''a''), Elem ''div'' [] []]"] by simp

section \<open>Properties of the page\<close>

text \<open>
  C8. \<open>Home\<close> renders. Its tree holds exactly one \<open>Button\<close>, one \<open>h1\<close> heading
  and two \<open>motion.div\<close> wrappers; the first wrapper has as its only child the card of
  value \<open>1\<close> and color orange, the second the card of value \<open>wild\<close> without a
  color. The root also holds the text \<open>;\<close> between the button and the heading.
\<close>

theorem Home_composition:
  "\<exists>page c1 c2.
     Home cn = Inr page
     \<and> Card cn \<lparr>color = Some orange, value = d1, className = None\<rparr> = Inr c1
     \<and> Card cn \<lparr>color = None, value = wild, className = None\<rparr> = Inr c2
     \<and> children_of page =
         [Elem ''Button'' [] [Text (utf16 ''Button'')],
          Text (utf16 '';''),
          Elem ''h1'' [(''className'', PStr ''bg-primary'')] [Text (utf16 ''ghdfkjgfhd'')],
          DraggableCard [c1],
          DraggableCard [c2]]
     \<and> count_tag ''Button'' page = 1
     \<and> count_tag ''h1'' page = 1
     \<and> count_tag ''motion.div'' page = 2"
  by (simp add: Home_def Card_def Card_body_def DraggableCard_def Corner_def)

theorem Home_composition_witness:
  "\<exists>page. Home cn_join = Inr page
     \<and> count_tag ''Button'' page = 1
     \<and> count_tag ''h1'' page = 1
     \<and> count_tag ''motion.div'' page = 2"
  using Home_composition [of cn_join] by auto

section \<open>The glyph mapping\<close>

text \<open>
  C4. \<open>iconify\<close> is a total function on the fifteen members of \<open>Value\<close>: \<open>skip\<close> gives
  the no-entry symbol, \<open>reverse\<close> the arrows symbol, \<open>wild\<close> the palette symbol, each of
  the ten digits gives itself, and \<open>+2\<close> and \<open>+4\<close> give their literal text.
\<close>

theorem iconify_mapping:
  "iconify skip = [0x26D4] \<and> iconify reverse = [0xD83D, 0xDD04] \<and> iconify wild = [0xD83C, 0xDFA8]
   \<and> iconify d0 = utf16 ''0'' \<and> iconify d1 = utf16 ''1'' \<and> iconify d2 = utf16 ''2''
   \<and> iconify d3 = utf16 ''3'' \<and> iconify d4 = utf16 ''4'' \<and> iconify d5 = utf16 ''5''
   \<and> iconify d6 = utf16 ''6'' \<and> iconify d7 = utf16 ''7'' \<and> iconify d8 = utf16 ''8''
   \<and> iconify d9 = utf16 ''9''
   \<and> iconify plus2 = utf16 ''+2'' \<and> iconify plus4 = utf16 ''+4''
   \<and> (\<forall>v. v \<notin> {skip, reverse, wild} \<longrightarrow> iconify v = literal v)"
proof -
  have "iconify v = literal v" if "v \<notin> {skip, reverse, wild}" for v
    using that by (cases v) simp_all
  then show ?thesis
    by (simp add: no_entry_sign_def arrows_sign_def palette_sign_def)
qed

theorem iconify_mapping_witness:
  "plus2 \<notin> {skip, reverse, wild} \<and> iconify plus2 = literal plus2"
  using iconify_mapping by simp

end
